theory Spec2Isabelle
  imports Main
begin

section \<open>Requests, responses and the ways a handler can end\<close>

text \<open>
  The server (\<^verbatim>\<open>src/server/server.go\<close>) is a set of echo handlers over three external
  collaborators: an LDAP directory, the JWT library and a MongoDB collection. A handler
  is modelled as a function from the request, the stored collection and the answers of
  the collaborators to the way the handler ends and the collection it leaves behind.

  A request carries the URL query parameters and the form fields of the body, each a
  list of name/value pairs in the order received. \<^verbatim>\<open>c.QueryParam\<close> returns the first
  value of the name in the URL query, \<^verbatim>\<open>c.FormValue\<close> the first value of the name with
  the body's fields ahead of the URL's; both return the empty string for a missing name.
\<close>

type_synonym err = string

record request =
  url_query :: "(string \<times> string) list"
  body_form :: "(string \<times> string) list"

definition QueryParam :: "request \<Rightarrow> string \<Rightarrow> string" where
  "QueryParam c name = (case map_of (url_query c) name of None \<Rightarrow> [] | Some v \<Rightarrow> v)"

definition FormValue :: "request \<Rightarrow> string \<Rightarrow> string" where
  "FormValue c name =
     (case map_of (body_form c @ url_query c) name of None \<Rightarrow> [] | Some v \<Rightarrow> v)"

text \<open>The \<^verbatim>\<open>Post\<close> struct; times are Unix seconds.\<close>

record Post =
  postID :: int
  postTitle :: string
  postSubtitle :: string
  postType :: string
  postCategory :: int
  createdOn :: int
  lastEditedOn :: int
  postContent :: string
  postLinkGithub :: string
  postLinkFacebook :: string
  showInMenu :: bool

text \<open>
  \<^verbatim>\<open>H\<close> is \<^verbatim>\<open>map[string]interface{}\<close>: the JSON object of a response, here the list of its
  members. The values the handlers below put into it are a string and a list of posts.
\<close>

datatype jvalue = JString string | JPosts "Post list"

type_synonym H = "(string \<times> jvalue) list"

text \<open>
  A handler ends in one of three ways: \<^verbatim>\<open>c.JSON(status, body)\<close> sends a response;
  \<^verbatim>\<open>log.Fatal(err)\<close> prints the error and exits the whole process with status 1, so no
  response is written; a run-time panic (an index out of range, a nil dereference,
  \<^verbatim>\<open>uuid.Must\<close>) unwinds the handler, again with no response written by it.
\<close>

datatype outcome = Response nat H | Fatal err | Panic string

definition StatusOK :: nat where
  "StatusOK = 200"

section \<open>\<^verbatim>\<open>strconv.Atoi\<close>\<close>

text \<open>
  Go's \<^verbatim>\<open>strconv.Atoi\<close> on a 64-bit platform, from the standard library: a string of 1 to
  18 bytes takes the fast path (an optional sign, then decimal digits only); every other
  string goes through \<^verbatim>\<open>ParseInt(s, 10, 0)\<close>, whose digit loop \<^verbatim>\<open>ParseUint\<close> stops at the
  first byte that is not a digit with a syntax error, and at the first overflow of 64
  bits with a range error. On a syntax error the value returned is 0; on a range
  error it is the nearest bound of \<^verbatim>\<open>int64\<close>.
\<close>

datatype NumError = ErrSyntax | ErrRange

definition is_digit :: "char \<Rightarrow> bool" where
  "is_digit ch = (48 \<le> (of_char ch :: nat) \<and> (of_char ch :: nat) \<le> 57)"

definition digit_val :: "char \<Rightarrow> nat" where
  "digit_val ch = (of_char ch :: nat) - 48"

definition has_sign :: "string \<Rightarrow> bool" where
  "has_sign s = (case s of [] \<Rightarrow> False | ch # _ \<Rightarrow> ch = CHR ''-'' \<or> ch = CHR ''+'')"

definition is_negative :: "string \<Rightarrow> bool" where
  "is_negative s = (case s of [] \<Rightarrow> False | ch # _ \<Rightarrow> ch = CHR ''-'')"

text \<open>The fast path's loop: \<^verbatim>\<open>ch -= '0'; if ch > 9 {syntax error}; n = n*10 + int(ch)\<close>.\<close>

fun atoi_fast_loop :: "nat \<Rightarrow> string \<Rightarrow> nat option" where
  "atoi_fast_loop n [] = Some n"
| "atoi_fast_loop n (ch # s) =
     (if is_digit ch then atoi_fast_loop (n * 10 + digit_val ch) s else None)"

definition maxUint64 :: nat where
  "maxUint64 = 2 ^ 64 - 1"

text \<open>
  \<^verbatim>\<open>ParseUint(s, 10, 64)\<close>. Its loop reads the bytes in order and returns at the first
  one it cannot take:
  \<^verbatim>\<open>
  for _, c := range []byte(s) {
      // d = c - '0' for a digit; any other byte: return 0, syntaxError(...)
      if n >= cutoff { return maxVal, rangeError(...) }     // n*base overflows
      n *= uint64(base)
      n1 := n + uint64(d)
      if n1 < n || n1 > maxVal { return maxVal, rangeError(...) }   // n+d overflows
      n = n1
  }
  \<close>
  \<open>cutoff\<close> is \<open>maxUint64 div 10 + 1\<close>, the smallest number whose tenfold overflows. The
  overflow is met at the digit that causes it, ahead of the bytes not yet read, so a
  string of twenty nines and a letter is out of range, not invalid syntax.
\<close>

fun ParseUint_loop :: "nat \<Rightarrow> string \<Rightarrow> nat \<times> NumError option" where
  "ParseUint_loop n [] = (n, None)"
| "ParseUint_loop n (ch # s) =
     (if \<not> is_digit ch then (0, Some ErrSyntax)
      else if n \<ge> maxUint64 div 10 + 1 then (maxUint64, Some ErrRange)
      else if n * 10 + digit_val ch > maxUint64 then (maxUint64, Some ErrRange)
      else ParseUint_loop (n * 10 + digit_val ch) s)"

definition ParseUint :: "string \<Rightarrow> nat \<times> NumError option" where
  "ParseUint s = (if s = [] then (0, Some ErrSyntax) else ParseUint_loop 0 s)"

definition ParseInt :: "string \<Rightarrow> int \<times> NumError option" where
  "ParseInt s0 =
     (if s0 = [] then (0, Some ErrSyntax)
      else
        let neg = is_negative s0;
            s = (if has_sign s0 then tl s0 else s0);
            (un, e) = ParseUint s
        in if e = Some ErrSyntax then (0, Some ErrSyntax)
           else if \<not> neg \<and> un \<ge> 2 ^ 63 then (2 ^ 63 - 1, Some ErrRange)
           else if neg \<and> un > 2 ^ 63 then (- (2 ^ 63), Some ErrRange)
           else (if neg then - int un else int un, None))"

definition Atoi :: "string \<Rightarrow> int \<times> NumError option" where
  "Atoi s0 =
     (if 0 < length s0 \<and> length s0 < 19 then
        let s = (if has_sign s0 then tl s0 else s0)
        in if length s < 1 then (0, Some ErrSyntax)
           else (case atoi_fast_loop 0 s of
                   None \<Rightarrow> (0, Some ErrSyntax)
                 | Some n \<Rightarrow> (if is_negative s0 then - int n else int n, None))
      else ParseInt s0)"

section \<open>The posts collection and \<^verbatim>\<open>getAllPosts\<close>\<close>

text \<open>
  The documents of the posts collection are kept abstract (type \<open>'d\<close>), in the order
  stored. What the MongoDB driver does with them is a parameter of the model:
  \<^item> \<open>find_error\<close>: the error \<^verbatim>\<open>collection.Find\<close> returns, if any;
  \<^item> \<open>has_category\<close>: whether a document satisfies the filter
    \<^verbatim>\<open>bson.D{{"post_category", cat}}\<close>;
  \<^item> \<open>decode_post\<close>: what \<^verbatim>\<open>cur.Decode(&elem)\<close> makes of a document.
  The filter \<^verbatim>\<open>bson.D{{}}\<close> is the "no specified category" filter of the source and
  selects every document. \<^verbatim>\<open>SetLimit\<close> follows the driver's documentation: the limit is the
  maximum number of documents returned, 0 means no limit, and a negative limit returns
  at most its absolute value (in a single batch). The cursor hands over the selected
  documents in stored order.
\<close>

record 'd posts_driver =
  find_error :: "err option"
  has_category :: "string \<Rightarrow> 'd \<Rightarrow> bool"
  decode_post :: "'d \<Rightarrow> err + Post"

datatype posts_filter = EveryDocument | PostCategory string

record FindOptions =
  Limit :: "int option"

definition options_Find :: FindOptions where
  "options_Find = \<lparr>Limit = None\<rparr>"

definition SetLimit :: "FindOptions \<Rightarrow> int \<Rightarrow> FindOptions" where
  "SetLimit opts i = opts\<lparr>Limit := Some i\<rparr>"

definition selected :: "'d posts_driver \<Rightarrow> posts_filter \<Rightarrow> 'd list \<Rightarrow> 'd list" where
  "selected drv flt docs =
     (case flt of EveryDocument \<Rightarrow> docs | PostCategory cat \<Rightarrow> filter (has_category drv cat) docs)"

definition limited :: "FindOptions \<Rightarrow> 'd list \<Rightarrow> 'd list" where
  "limited opts docs =
     (case Limit opts of
        None \<Rightarrow> docs
      | Some i \<Rightarrow> (if i = 0 then docs else take (nat \<bar>i\<bar>) docs))"

definition Find :: "'d posts_driver \<Rightarrow> 'd list \<Rightarrow> posts_filter \<Rightarrow> FindOptions \<Rightarrow> err + 'd list" where
  "Find drv docs flt opts =
     (case find_error drv of Some e \<Rightarrow> Inl e | None \<Rightarrow> Inr (limited opts (selected drv flt docs)))"

text \<open>
  Lines 255 to 263: the count is read from the \<^verbatim>\<open>id\<close> query parameter, the error of
  \<^verbatim>\<open>Atoi\<close> dropped, and becomes the limit of the query (\<^verbatim>\<open>int64(count)\<close> is the identity on a
  64-bit \<^verbatim>\<open>int\<close>).
\<close>

definition posts_count :: "request \<Rightarrow> int" where
  "posts_count c = fst (Atoi (QueryParam c ''id''))"

definition posts_findOptions :: "request \<Rightarrow> FindOptions" where
  "posts_findOptions c =
     (let count = posts_count c;
          findOptions = options_Find
      in if count \<noteq> 10 then SetLimit findOptions count else SetLimit findOptions 10)"

definition posts_filter_of :: "request \<Rightarrow> posts_filter" where
  "posts_filter_of c =
     (let cat = QueryParam c ''category''
      in if cat = [] then EveryDocument else PostCategory cat)"

text \<open>Lines 281 to 289: the cursor loop; the first document that fails to decode is fatal.\<close>

fun decode_all :: "'d posts_driver \<Rightarrow> 'd list \<Rightarrow> Post list \<Rightarrow> err + Post list" where
  "decode_all drv [] posts = Inr posts"
| "decode_all drv (d # cur) posts =
     (case decode_post drv d of
        Inl e \<Rightarrow> Inl e
      | Inr elem \<Rightarrow> decode_all drv cur (posts @ [elem]))"

definition getAllPosts :: "'d posts_driver \<Rightarrow> 'd list \<Rightarrow> request \<Rightarrow> outcome" where
  "getAllPosts drv collection c =
     (case Find drv collection (posts_filter_of c) (posts_findOptions c) of
        Inl e \<Rightarrow> Fatal e
      | Inr cur \<Rightarrow>
          (case decode_all drv cur [] of
             Inl e \<Rightarrow> Fatal e
           | Inr posts \<Rightarrow> Response StatusOK [(''posts'', JPosts posts)]))"

section \<open>The directory: \<^verbatim>\<open>gopkg.in/ldap.v2\<close>\<close>

text \<open>
  An entry of a search result is its distinguished name and its attributes, each a name
  with its values. \<^verbatim>\<open>GetAttributeValues\<close> returns the values of the first attribute of
  that name, or no values; \<^verbatim>\<open>GetAttributeValue\<close> the first of them, or the empty string.
\<close>

record Entry =
  DN :: string
  Attributes :: "(string \<times> string list) list"

fun attribute_values :: "(string \<times> string list) list \<Rightarrow> string \<Rightarrow> string list" where
  "attribute_values [] attribute = []"
| "attribute_values ((name, vals) # attrs) attribute =
     (if name = attribute then vals else attribute_values attrs attribute)"

definition GetAttributeValues :: "Entry \<Rightarrow> string \<Rightarrow> string list" where
  "GetAttributeValues e attribute = attribute_values (Attributes e) attribute"

definition GetAttributeValue :: "Entry \<Rightarrow> string \<Rightarrow> string" where
  "GetAttributeValue e attribute =
     (case GetAttributeValues e attribute of [] \<Rightarrow> [] | v # _ \<Rightarrow> v)"

record SearchRequest =
  BaseDN :: string
  Scope :: nat
  DerefAliases :: nat
  SizeLimit :: nat
  TimeLimit :: nat
  TypesOnly :: bool
  SearchFilter :: string
  RetrieveAttributes :: "string list"

definition ScopeWholeSubtree :: nat where
  "ScopeWholeSubtree = 2"

definition NeverDerefAliases :: nat where
  "NeverDerefAliases = 0"

definition NewSearchRequest ::
  "string \<Rightarrow> nat \<Rightarrow> nat \<Rightarrow> nat \<Rightarrow> nat \<Rightarrow> bool \<Rightarrow> string \<Rightarrow> string list \<Rightarrow> SearchRequest" where
  "NewSearchRequest base scope deref sizeLimit timeLimit typesOnly flt attrs =
     \<lparr>BaseDN = base, Scope = scope, DerefAliases = deref, SizeLimit = sizeLimit,
      TimeLimit = timeLimit, TypesOnly = typesOnly, SearchFilter = flt,
      RetrieveAttributes = attrs\<rparr>"

section \<open>Tokens: \<^verbatim>\<open>github.com/dgrijalva/jwt-go\<close>\<close>

text \<open>
  The \<^verbatim>\<open>Claims\<close> struct of the source: the hash of the zID (the 32 bytes of
  \<^verbatim>\<open>[32]byte\<close>, as a byte string), the first name, and of the embedded
  \<^verbatim>\<open>jwt.StandardClaims\<close> the one field the source sets, \<^verbatim>\<open>ExpiresAt\<close> (Unix seconds).
  A \<^verbatim>\<open>jwt.Token\<close> is its signing method, its claims and the \<^verbatim>\<open>Valid\<close> flag, which
  \<^verbatim>\<open>NewWithClaims\<close> leaves false and only parsing sets.
\<close>

record Claims =
  hashedZID :: string
  firstName :: string
  ExpiresAt :: int

record Token =
  Method :: string
  TokenClaims :: Claims
  Valid :: bool

definition SigningMethodHS256 :: string where
  "SigningMethodHS256 = ''HS256''"

definition NewWithClaims :: "string \<Rightarrow> Claims \<Rightarrow> Token" where
  "NewWithClaims method claims = \<lparr>Method = method, TokenClaims = claims, Valid = False\<rparr>"

text \<open>
  The two operations of the library the source calls are parameters of the model:
  \<^verbatim>\<open>token.SignedString(key)\<close> (its error is dropped by the source, the string kept)
  and \<^verbatim>\<open>jwt.ParseWithClaims(tokenString, claims, keyFunc)\<close> with the key the key
  function returns; the token pointer it returns may be nil (\<open>None\<close>).
\<close>

record jwt_library =
  SignedString :: "Token \<Rightarrow> string \<Rightarrow> string"
  ParseWithClaims :: "string \<Rightarrow> string \<Rightarrow> Token option"

definition jwtKey :: string where
  "jwtKey = ''secret_text''"

text \<open>
  Lines 179 to 190, the issuing of a token: the expiry is 24 hours after the clock
  reading \<open>now\<close>, and the claims are signed with \<open>jwtKey\<close>.
\<close>

definition issue_claims :: "int \<Rightarrow> string \<Rightarrow> string \<Rightarrow> Claims" where
  "issue_claims now hashed first =
     (let expirationTime = now + 3600 * 24
      in \<lparr>hashedZID = hashed, firstName = first, ExpiresAt = expirationTime\<rparr>)"

definition issue_token :: "jwt_library \<Rightarrow> int \<Rightarrow> string \<Rightarrow> string \<Rightarrow> string" where
  "issue_token lib now hashed first =
     (let claims = issue_claims now hashed first;
          tokenJWT = NewWithClaims SigningMethodHS256 claims
      in SignedString lib tokenJWT jwtKey)"

text \<open>Lines 209 to 212, the check of a stored token: parsed with the same key.\<close>

definition parse_stored :: "jwt_library \<Rightarrow> string \<Rightarrow> Token option" where
  "parse_stored lib stored = ParseWithClaims lib stored jwtKey"

section \<open>The users collection\<close>

record User =
  userID :: string
  userToken :: string
  role :: string

text \<open>
  The collection is the list of the user documents stored, in insertion order.
  \<^verbatim>\<open>FindOne\<close> with the filter \<^verbatim>\<open>{"userID": id}\<close> decodes the first document of that
  \<open>userID\<close>; the source drops its error and only tests the decoded pointer for nil, so a
  failed lookup and a missing document look the same. \<^verbatim>\<open>InsertOne\<close> appends a document;
  \<^verbatim>\<open>UpdateOne\<close> with \<^verbatim>\<open>{"$set": {"userToken": t}}\<close> overwrites the token of the first
  document of that \<open>userID\<close>. Whether each call fails is a parameter; a call that fails
  leaves the collection as it was.
\<close>

record users_driver =
  FindOne_error :: "err option"
  InsertOne_error :: "err option"
  UpdateOne_error :: "err option"

definition FindOne :: "users_driver \<Rightarrow> User list \<Rightarrow> string \<Rightarrow> User option" where
  "FindOne drv collection uid =
     (case FindOne_error drv of
        Some e \<Rightarrow> None
      | None \<Rightarrow> find (\<lambda>u. userID u = uid) collection)"

definition InsertOne :: "users_driver \<Rightarrow> User list \<Rightarrow> User \<Rightarrow> err + User list" where
  "InsertOne drv collection user =
     (case InsertOne_error drv of Some e \<Rightarrow> Inl e | None \<Rightarrow> Inr (collection @ [user]))"

fun set_userToken :: "string \<Rightarrow> string \<Rightarrow> User list \<Rightarrow> User list" where
  "set_userToken uid t [] = []"
| "set_userToken uid t (u # us) =
     (if userID u = uid then u\<lparr>userToken := t\<rparr> # us else u # set_userToken uid t us)"

definition UpdateOne :: "users_driver \<Rightarrow> User list \<Rightarrow> string \<Rightarrow> string \<Rightarrow> err + User list" where
  "UpdateOne drv collection uid t =
     (case UpdateOne_error drv of Some e \<Rightarrow> Inl e | None \<Rightarrow> Inr (set_userToken uid t collection))"

section \<open>\<^verbatim>\<open>login\<close>\<close>

text \<open>
  Everything outside the process that one call of \<^verbatim>\<open>login\<close> meets: the directory
  (whether \<^verbatim>\<open>ldap.Dial\<close> and \<^verbatim>\<open>l.Bind\<close> fail, what \<^verbatim>\<open>l.Search\<close> returns),
  \<^verbatim>\<open>sha256.Sum256\<close>, the clock read by \<^verbatim>\<open>time.Now()\<close> in Unix seconds, the JWT
  library and the failures of the users collection.
\<close>

record world =
  ldap_Dial :: "string \<Rightarrow> string \<Rightarrow> err option"
  ldap_Bind :: "string \<Rightarrow> string \<Rightarrow> err option"
  ldap_Search :: "SearchRequest \<Rightarrow> err + Entry list"
  Sum256 :: "string \<Rightarrow> string"
  time_Now :: int
  jwt :: jwt_library
  users :: users_driver

text \<open>
  The calls a run makes to the directory and to the users collection, in order. The
  run of a handler is how it ended, the collection it left and the calls it made.
\<close>

datatype call =
    Dial
  | Bind string string
  | Search SearchRequest
  | FindOneCall string
  | InsertOneCall User
  | UpdateOneCall string string
  | DeleteOneCall string

record 'doc run =
  ending :: outcome
  collection_after :: "'doc list"
  calls :: "call list"

text \<open>
  The writes to a collection, and the requests sent to the directory over the connection
  that \<^verbatim>\<open>ldap.Dial\<close> opened (the bind and the search).
\<close>

fun is_write :: "call \<Rightarrow> bool" where
  "is_write (InsertOneCall user) = True"
| "is_write (UpdateOneCall uid t) = True"
| "is_write (DeleteOneCall uid) = True"
| "is_write other = False"


definition token_response :: "string \<Rightarrow> outcome" where
  "token_response tokenString = Response StatusOK [(''token'', JString tokenString)]"

text \<open>
  Lines 178 to 232: the token is issued, then the collection is read and written. The
  update of line 219 stores \<open>decodedTokenString\<close>, the stored token's own claims signed
  again, not \<open>tokenString\<close>.
\<close>

definition login_session ::
  "world \<Rightarrow> User list \<Rightarrow> call list \<Rightarrow> string \<Rightarrow> Entry \<Rightarrow> User run" where
  "login_session w collection made hashed userFound =
     (let tokenString = issue_token (jwt w) (time_Now w) hashed (GetAttributeValue userFound ''firstName'');
          user = \<lparr>userID = hashed, userToken = tokenString, role = ''user''\<rparr>;
          isValidUser = FindOne (users w) collection hashed;
          made1 = made @ [FindOneCall hashed]
      in case isValidUser of
           None \<Rightarrow>
             (case InsertOne (users w) collection user of
                Inl e \<Rightarrow>
                  \<lparr>ending = Fatal e, collection_after = collection,
                   calls = made1 @ [InsertOneCall user]\<rparr>
              | Inr inserted \<Rightarrow>
                  \<lparr>ending = token_response tokenString, collection_after = inserted,
                   calls = made1 @ [InsertOneCall user]\<rparr>)
         | Some found \<Rightarrow>
             (case parse_stored (jwt w) (userToken found) of
                None \<Rightarrow>
                  \<lparr>ending = Panic ''invalid memory address or nil pointer dereference'',
                   collection_after = collection, calls = made1\<rparr>
              | Some decodedToken \<Rightarrow>
                  let decodedTokenString = SignedString (jwt w) decodedToken jwtKey
                  in if \<not> Valid decodedToken then
                       (case UpdateOne (users w) collection hashed decodedTokenString of
                          Inl e \<Rightarrow>
                            \<lparr>ending = Fatal e, collection_after = collection,
                             calls = made1 @ [UpdateOneCall hashed decodedTokenString]\<rparr>
                        | Inr updated \<Rightarrow>
                            \<lparr>ending = token_response tokenString, collection_after = updated,
                             calls = made1 @ [UpdateOneCall hashed decodedTokenString]\<rparr>)
                     else
                       \<lparr>ending = token_response tokenString, collection_after = collection,
                        calls = made1\<rparr>))"

text \<open>Lines 161 to 171: the search for the entry of the user, asking for \<^verbatim>\<open>givenName\<close>.\<close>

definition login_searchRequest :: "string \<Rightarrow> SearchRequest" where
  "login_searchRequest username =
     NewSearchRequest ''OU=IDM_People,OU=IDM,DC=ad,DC=unsw,DC=edu,DC=au''
       ScopeWholeSubtree NeverDerefAliases 0 0 False (''cn='' @ username) [''givenName'']"

text \<open>
  Lines 143 to 177: the connection, the bind and the search; \<^verbatim>\<open>searchResult.Entries[0]\<close>
  panics on a result with no entry.
\<close>

definition login_search :: "world \<Rightarrow> User list \<Rightarrow> string \<Rightarrow> string \<Rightarrow> string \<Rightarrow> User run" where
  "login_search w collection hashed username password =
     (let searchRequest = login_searchRequest username;
          made = [Dial, Bind username password, Search searchRequest]
      in case ldap_Search w searchRequest of
           Inl e \<Rightarrow> \<lparr>ending = Fatal e, collection_after = collection, calls = made\<rparr>
         | Inr entries \<Rightarrow>
             (case entries of
                [] \<Rightarrow>
                  \<lparr>ending = Panic ''index out of range'', collection_after = collection,
                   calls = made\<rparr>
              | userFound # _ \<Rightarrow> login_session w collection made hashed userFound))"

definition login :: "world \<Rightarrow> User list \<Rightarrow> request \<Rightarrow> User run" where
  "login w collection c =
     (case ldap_Dial w ''tcp'' ''ad.unsw.edu.au'' of
        Some e \<Rightarrow> \<lparr>ending = Fatal e, collection_after = collection, calls = [Dial]\<rparr>
      | None \<Rightarrow>
          let zid = FormValue c ''zid'';
              hashed = Sum256 w zid;
              username = zid @ ''ad.unsw.edu.au'';
              password = FormValue c ''password''
          in (case ldap_Bind w username password of
                Some e \<Rightarrow>
                  \<lparr>ending = Fatal e, collection_after = collection,
                   calls = [Dial, Bind username password]\<rparr>
              | None \<Rightarrow> login_search w collection hashed username password))"

section \<open>\<^verbatim>\<open>deleteSponsor\<close>\<close>

text \<open>
  The \<^verbatim>\<open>Sponsor\<close> struct; a \<^verbatim>\<open>uuid.UUID\<close> is its 16 bytes. \<^verbatim>\<open>uuid.Parse\<close> (of
  \<^verbatim>\<open>github.com/google/uuid\<close>) and the failure of \<^verbatim>\<open>DeleteOne\<close> are parameters;
  \<^verbatim>\<open>uuid.Must\<close> panics with the error of the parse. \<^verbatim>\<open>DeleteOne\<close> removes the first
  sponsor of that id.
\<close>

record Sponsor =
  sponsorID :: string
  sponsorName :: string
  sponsorLogo :: string
  sponsorTier :: string
  expiry :: int

record sponsors_driver =
  uuid_Parse :: "string \<Rightarrow> err + string"
  DeleteOne_error :: "err option"

fun delete_first :: "string \<Rightarrow> Sponsor list \<Rightarrow> Sponsor list" where
  "delete_first uid [] = []"
| "delete_first uid (sp # sps) =
     (if sponsorID sp = uid then sps else sp # delete_first uid sps)"

definition DeleteOne :: "sponsors_driver \<Rightarrow> Sponsor list \<Rightarrow> string \<Rightarrow> err + Sponsor list" where
  "DeleteOne drv collection uid =
     (case DeleteOne_error drv of Some e \<Rightarrow> Inl e | None \<Rightarrow> Inr (delete_first uid collection))"

definition deleteSponsor :: "sponsors_driver \<Rightarrow> Sponsor list \<Rightarrow> request \<Rightarrow> Sponsor run" where
  "deleteSponsor drv collection c =
     (let id = FormValue c ''id''
      in case uuid_Parse drv id of
           Inl e \<Rightarrow> \<lparr>ending = Panic e, collection_after = collection, calls = []\<rparr>
         | Inr parsedID \<Rightarrow>
             (case DeleteOne drv collection parsedID of
                Inl e \<Rightarrow>
                  \<lparr>ending = Fatal e, collection_after = collection,
                   calls = [DeleteOneCall parsedID]\<rparr>
              | Inr remaining \<Rightarrow>
                  \<lparr>ending = Response StatusOK [], collection_after = remaining,
                   calls = [DeleteOneCall parsedID]\<rparr>))"

section \<open>The token issuer of the specification\<close>

text \<open>
  The JWT library (\<^verbatim>\<open>github.com/dgrijalva/jwt-go\<close>), whose \<^verbatim>\<open>SignedString\<close> and
  \<^verbatim>\<open>ParseWithClaims\<close> decide what a token string is and when it verifies, is not under
  \<^verbatim>\<open>src/\<close>. Section 4.2 of the specification describes it: a token is a
  "deterministic signature over the claim set", "serialized as a signed, verifiable
  string"; verification "returns valid=false if the signature does not match or the
  token is expired; never raises for malformed input, only reports invalid". This
  section gives a library of that description, to stand for the \<open>jwt_library\<close> of a
  world.

  Numbers are written in decimal and read back with the digit loop of \<^verbatim>\<open>Atoi\<close>; a byte
  string is framed by its length and a colon in front of it, so that it can be cut
  off whatever bytes it holds.
\<close>

definition digit_char :: "nat \<Rightarrow> char" where
  "digit_char d = char_of (48 + d)"

fun show_nat :: "nat \<Rightarrow> string" where
  "show_nat n = (if n < 10 then [digit_char n] else show_nat (n div 10) @ [digit_char (n mod 10)])"

declare show_nat.simps [simp del]

definition read_nat :: "string \<Rightarrow> nat option" where
  "read_nat s = (if s = [] then None else atoi_fast_loop 0 s)"

definition show_int :: "int \<Rightarrow> string" where
  "show_int i = (if i < 0 then CHR ''-'' # show_nat (nat (- i)) else show_nat (nat i))"

definition read_int :: "string \<Rightarrow> int option" where
  "read_int s =
     (if is_negative s then map_option (\<lambda>n. - int n) (read_nat (tl s))
      else map_option int (read_nat s))"

definition frame :: "string \<Rightarrow> string" where
  "frame p = show_nat (length p) @ CHR '':'' # p"

definition unframe :: "string \<Rightarrow> (string \<times> string) option" where
  "unframe s =
     (case dropWhile (\<lambda>ch. ch \<noteq> CHR '':'') s of
        [] \<Rightarrow> None
      | colon # body \<Rightarrow>
          (case read_nat (takeWhile (\<lambda>ch. ch \<noteq> CHR '':'') s) of
             None \<Rightarrow> None
           | Some n \<Rightarrow> (if n \<le> length body then Some (take n body, drop n body) else None)))"

text \<open>
  Modelled from the spec: the serialisation of the claim set inside the JWT library,
  which is not under \<^verbatim>\<open>src/\<close> ("serialized as a signed, verifiable string"). The hash
  and the first name are framed, the expiry follows as a decimal number.
\<close>

definition encode_claims :: "Claims \<Rightarrow> string" where
  "encode_claims cl = frame (hashedZID cl) @ frame (firstName cl) @ show_int (ExpiresAt cl)"

definition decode_claims :: "string \<Rightarrow> Claims option" where
  "decode_claims p =
     (case unframe p of
        None \<Rightarrow> None
      | Some (hashed, rest) \<Rightarrow>
          (case unframe rest of
             None \<Rightarrow> None
           | Some (first, number) \<Rightarrow>
               (case read_int number of
                  None \<Rightarrow> None
                | Some e \<Rightarrow> Some \<lparr>hashedZID = hashed, firstName = first, ExpiresAt = e\<rparr>)))"

text \<open>
  Modelled from the spec: \<^verbatim>\<open>SignedString\<close> of the JWT library, which is not under
  \<^verbatim>\<open>src/\<close> ("deterministic signature over the claim set"). The signature is any
  function \<open>sg\<close> of the key and the serialised claims; the token string is the framed
  serialisation of the claims followed by their signature.
\<close>

definition spec_SignedString :: "(string \<Rightarrow> string \<Rightarrow> string) \<Rightarrow> Token \<Rightarrow> string \<Rightarrow> string" where
  "spec_SignedString sg token key =
     (let p = encode_claims (TokenClaims token) in frame p @ sg key p)"

text \<open>
  Modelled from the spec: \<^verbatim>\<open>ParseWithClaims\<close> of the JWT library, which is not under
  \<^verbatim>\<open>src/\<close> ("returns valid=false if the signature does not match or the token is
  expired; never raises for malformed input, only reports invalid"). \<open>now\<close> is the clock
  of the verifier in Unix seconds; a token is expired when that clock reads a second
  after its expiry. A string that does not parse is reported as a token that is not
  valid and carries empty claims.
\<close>

definition rejected_token :: Token where
  "rejected_token =
     \<lparr>Method = SigningMethodHS256,
      TokenClaims = \<lparr>hashedZID = [], firstName = [], ExpiresAt = 0\<rparr>,
      Valid = False\<rparr>"

definition spec_ParseWithClaims ::
  "(string \<Rightarrow> string \<Rightarrow> string) \<Rightarrow> int \<Rightarrow> string \<Rightarrow> string \<Rightarrow> Token option" where
  "spec_ParseWithClaims sg now tokenString key =
     (case unframe tokenString of
        None \<Rightarrow> Some rejected_token
      | Some (p, signature) \<Rightarrow>
          (case decode_claims p of
             None \<Rightarrow> Some rejected_token
           | Some cl \<Rightarrow>
               Some \<lparr>Method = SigningMethodHS256, TokenClaims = cl,
                     Valid = (signature = sg key p \<and> now \<le> ExpiresAt cl)\<rparr>))"

text \<open>
  Modelled from the spec: the JWT library as a whole, which is not under \<^verbatim>\<open>src/\<close>, for a
  signature function and a clock of the verifier.
\<close>

definition spec_jwt :: "(string \<Rightarrow> string \<Rightarrow> string) \<Rightarrow> int \<Rightarrow> jwt_library" where
  "spec_jwt sg now =
     \<lparr>SignedString = spec_SignedString sg, ParseWithClaims = spec_ParseWithClaims sg now\<rparr>"

section \<open>A sample deployment\<close>

text \<open>
  One concrete directory, clock and collection, on which the theorems below are run:
  the directory knows \<open>z1111111\<close> with the password \<open>opensesame\<close> and answers the search
  with the one attribute asked for, \<open>givenName\<close>; the hash and the signature are
  stand-ins (the reverse of the input, the key in front of the payload); the token
  library is the one of the specification; no call to the collection fails.
\<close>

definition sample_entry :: Entry where
  "sample_entry =
     \<lparr>DN = ''CN=z1111111,OU=IDM_People,OU=IDM,DC=ad,DC=unsw,DC=edu,DC=au'',
      Attributes = [(''givenName'', [''Ada''])]\<rparr>"

definition sample_signature :: "string \<Rightarrow> string \<Rightarrow> string" where
  "sample_signature key p = key @ p"

definition sample_world :: "int \<Rightarrow> world" where
  "sample_world now =
     \<lparr>ldap_Dial = (\<lambda>network addr. None),
      ldap_Bind = (\<lambda>username password.
        if username = ''z1111111ad.unsw.edu.au'' \<and> password = ''opensesame'' then None
        else Some ''LDAP Result Code 49: Invalid Credentials''),
      ldap_Search = (\<lambda>searchRequest. Inr [sample_entry]),
      Sum256 = rev,
      time_Now = now,
      jwt = spec_jwt sample_signature now,
      users = \<lparr>FindOne_error = None, InsertOne_error = None, UpdateOne_error = None\<rparr>\<rparr>"

definition good_login :: request where
  "good_login = \<lparr>url_query = [], body_form = [(''zid'', ''z1111111''), (''password'', ''opensesame'')]\<rparr>"

definition bad_login :: request where
  "bad_login = \<lparr>url_query = [], body_form = [(''zid'', ''z1111111''), (''password'', ''guess'')]\<rparr>"

text \<open>
  The token the sample deployment issues to \<open>z1111111\<close> at second \<open>now\<close> (the first name
  in it is empty: the entry has no attribute \<open>firstName\<close>), and the record of a first
  login at second 0.
\<close>

definition sample_token :: "int \<Rightarrow> string" where
  "sample_token now = issue_token (spec_jwt sample_signature now) now ''1111111z'' []"

definition sample_user :: User where
  "sample_user = \<lparr>userID = ''1111111z'', userToken = sample_token 0, role = ''user''\<rparr>"

text \<open>
  A posts collection of numbered documents with four requests: one asking for five
  posts, one with no parameter, one whose \<open>id\<close> is no number, and one whose \<open>id\<close> is twenty
  digits and a letter. And a sponsors driver that parses by length, with one sponsor
  and a request to delete with an id that is no UUID.
\<close>

definition five_posts_request :: request where
  "five_posts_request = \<lparr>url_query = [(''id'', ''5'')], body_form = []\<rparr>"

definition plain_request :: request where
  "plain_request = \<lparr>url_query = [], body_form = []\<rparr>"

definition abc_posts_request :: request where
  "abc_posts_request = \<lparr>url_query = [(''id'', ''abc'')], body_form = []\<rparr>"

definition overlong_posts_request :: request where
  "overlong_posts_request =
     \<lparr>url_query = [(''id'', ''99999999999999999999x'')], body_form = []\<rparr>"

definition sample_post :: "nat \<Rightarrow> Post" where
  "sample_post n =
     \<lparr>postID = int n, postTitle = ''title'', postSubtitle = [], postType = ''news'',
      postCategory = 1, createdOn = 0, lastEditedOn = 0, postContent = [],
      postLinkGithub = [], postLinkFacebook = [], showInMenu = False\<rparr>"

definition sample_posts_driver :: "nat posts_driver" where
  "sample_posts_driver =
     \<lparr>find_error = None, has_category = (\<lambda>cat n. cat = ''news''),
      decode_post = (\<lambda>n. Inr (sample_post n))\<rparr>"

definition sample_sponsors_driver :: sponsors_driver where
  "sample_sponsors_driver =
     \<lparr>uuid_Parse = (\<lambda>s. if length s = 36 then Inr s else Inl ''invalid UUID length''),
      DeleteOne_error = None\<rparr>"

definition sample_sponsor :: Sponsor where
  "sample_sponsor =
     \<lparr>sponsorID = ''123e4567-e89b-12d3-a456-426614174000'', sponsorName = ''Acme'',
      sponsorLogo = ''acme.png'', sponsorTier = ''gold'', expiry = 0\<rparr>"

definition malformed_delete :: request where
  "malformed_delete = \<lparr>url_query = [(''id'', ''not-a-uuid'')], body_form = []\<rparr>"

section \<open>Facts about \<^verbatim>\<open>Atoi\<close> and the posts query\<close>

lemma ParseInt_syntax_zero: "snd (ParseInt s) = Some ErrSyntax \<Longrightarrow> fst (ParseInt s) = 0"
  by (auto simp: ParseInt_def Let_def split: if_splits prod.splits)

lemma Atoi_syntax_zero: "snd (Atoi s) = Some ErrSyntax \<Longrightarrow> fst (Atoi s) = 0"
  by (auto simp: Atoi_def Let_def ParseInt_syntax_zero split: if_splits option.splits)

lemma Atoi_empty: "Atoi [] = (0, Some ErrSyntax)"
  by (simp add: Atoi_def ParseInt_def)

lemma Atoi_leading_non_digit:
  assumes "s \<noteq> []" and "\<not> has_sign s" and "\<not> is_digit (hd s)"
  shows "Atoi s = (0, Some ErrSyntax)"
proof -
  from assms(1) obtain ch rest where s: "s = ch # rest" by (cases s) auto
  with assms show ?thesis
    by (simp add: Atoi_def ParseInt_def ParseUint_def is_negative_def has_sign_def)
qed

lemma Atoi_abc: "Atoi ''abc'' = (0, Some ErrSyntax)"
  by (rule Atoi_leading_non_digit) (simp_all add: has_sign_def is_digit_def)

lemma Atoi_five: "Atoi ''5'' = (5, None)"
  by (simp add: Atoi_def has_sign_def is_negative_def is_digit_def digit_val_def)

lemma decode_all_decoded:
  "decode_all drv cur acc = Inr posts \<Longrightarrow>
     map Inr posts = map Inr acc @ map (decode_post drv) cur"
proof (induction cur arbitrary: acc)
  case Nil
  then show ?case by simp
next
  case (Cons d cur)
  then show ?case by (auto split: sum.splits)
qed

lemma decode_all_total:
  "\<forall>d \<in> set cur. \<exists>p. decode_post drv d = Inr p \<Longrightarrow>
     \<exists>posts. decode_all drv cur acc = Inr posts"
proof (induction cur arbitrary: acc)
  case Nil
  then show ?case by simp
next
  case (Cons d cur)
  then obtain p where "decode_post drv d = Inr p" by auto
  with Cons show ?case by simp
qed

lemma limited_length:
  "Limit opts = Some i \<Longrightarrow> i \<noteq> 0 \<Longrightarrow> length (limited opts docs) \<le> nat \<bar>i\<bar>"
  by (simp add: limited_def)

lemma limited_zero: "Limit opts = Some 0 \<Longrightarrow> limited opts docs = docs"
  by (simp add: limited_def)

lemma limited_subset: "set (limited opts docs) \<subseteq> set docs"
  by (auto simp: limited_def split: option.splits dest: in_set_takeD)

lemma selected_subset: "set (selected drv flt docs) \<subseteq> set docs"
  by (auto simp: selected_def split: posts_filter.splits)

lemma posts_findOptions_limit: "Limit (posts_findOptions c) = Some (posts_count c)"
  by (simp add: posts_findOptions_def Let_def SetLimit_def options_Find_def)

lemma getAllPosts_response:
  assumes "getAllPosts drv collection c = Response code body"
  shows "code = StatusOK \<and>
     (\<exists>posts. body = [(''posts'', JPosts posts)] \<and>
        map Inr posts =
          map (decode_post drv)
            (limited (posts_findOptions c) (selected drv (posts_filter_of c) collection)))"
  using assms
  by (auto simp: getAllPosts_def Find_def split: sum.splits option.splits
      dest: decode_all_decoded)

lemma getAllPosts_responds:
  assumes "find_error drv = None"
    and "\<forall>d \<in> set collection. \<exists>p. decode_post drv d = Inr p"
  shows "\<exists>posts. getAllPosts drv collection c = Response StatusOK [(''posts'', JPosts posts)]"
proof -
  let ?cur = "limited (posts_findOptions c) (selected drv (posts_filter_of c) collection)"
  have "set ?cur \<subseteq> set collection"
    using limited_subset selected_subset by fastforce
  with assms(2) have "\<forall>d \<in> set ?cur. \<exists>p. decode_post drv d = Inr p" by blast
  from decode_all_total [OF this] obtain posts where "decode_all drv ?cur [] = Inr posts"
    by blast
  with assms(1) show ?thesis by (simp add: getAllPosts_def Find_def)
qed

lemma sample_posts_five:
  "getAllPosts sample_posts_driver [1, 2, 3, 4, 5, 6, 7] five_posts_request =
     Response StatusOK [(''posts'', JPosts (map sample_post [1, 2, 3, 4, 5]))]"
  by (simp add: getAllPosts_def Find_def sample_posts_driver_def five_posts_request_def
        posts_filter_of_def posts_findOptions_def posts_count_def QueryParam_def Atoi_five
        SetLimit_def options_Find_def limited_def selected_def)

lemma sample_posts_plain:
  "getAllPosts sample_posts_driver [1, 2, 3, 4, 5, 6, 7, 8, 9, 10, 11, 12] plain_request =
     Response StatusOK
       [(''posts'', JPosts (map sample_post [1, 2, 3, 4, 5, 6, 7, 8, 9, 10, 11, 12]))]"
  by (simp add: getAllPosts_def Find_def sample_posts_driver_def plain_request_def
        posts_filter_of_def posts_findOptions_def posts_count_def QueryParam_def Atoi_empty
        SetLimit_def options_Find_def limited_def selected_def)

lemma sample_posts_abc:
  "getAllPosts sample_posts_driver [1, 2, 3, 4, 5, 6, 7, 8, 9, 10, 11, 12] abc_posts_request =
     Response StatusOK
       [(''posts'', JPosts (map sample_post [1, 2, 3, 4, 5, 6, 7, 8, 9, 10, 11, 12]))]"
  by (simp add: getAllPosts_def Find_def sample_posts_driver_def abc_posts_request_def
        posts_filter_of_def posts_findOptions_def posts_count_def QueryParam_def Atoi_abc
        SetLimit_def options_Find_def limited_def selected_def)

section \<open>Facts about the token issuer of the specification\<close>

lemma digit_char_digit: "d < 10 \<Longrightarrow> is_digit (digit_char d) \<and> digit_val (digit_char d) = d"
  by (simp add: is_digit_def digit_val_def digit_char_def)

lemma atoi_fast_loop_append:
  "atoi_fast_loop n (xs @ ys) =
     (case atoi_fast_loop n xs of None \<Rightarrow> None | Some m \<Rightarrow> atoi_fast_loop m ys)"
  by (induction xs arbitrary: n) simp_all

lemma atoi_fast_loop_show_nat: "atoi_fast_loop 0 (show_nat n) = Some n"
proof (induction n rule: show_nat.induct)
  case (1 n)
  show ?case
  proof (cases "n < 10")
    case True
    then show ?thesis
      by (subst show_nat.simps) (simp add: digit_char_digit)
  next
    case False
    have m: "n mod 10 < 10" by simp
    from False 1 have "atoi_fast_loop 0 (show_nat (n div 10)) = Some (n div 10)" by simp
    with False show ?thesis
      by (subst show_nat.simps) (simp add: atoi_fast_loop_append digit_char_digit [OF m])
  qed
qed

lemma show_nat_not_empty: "show_nat n \<noteq> []"
  by (subst show_nat.simps) simp

lemma show_nat_digits: "ch \<in> set (show_nat n) \<Longrightarrow> is_digit ch"
proof (induction n rule: show_nat.induct)
  case (1 n)
  have m: "n mod 10 < 10" by simp
  from "1.prems" have
    "ch \<in> set (if n < 10 then [digit_char n] else show_nat (n div 10) @ [digit_char (n mod 10)])"
    by (subst (asm) show_nat.simps) simp
  then show ?case
    using "1.IH" digit_char_digit [OF m]
    by (auto simp: digit_char_digit split: if_splits)
qed

lemma read_nat_show_nat: "read_nat (show_nat n) = Some n"
  by (simp add: read_nat_def show_nat_not_empty atoi_fast_loop_show_nat)

lemma show_nat_no_colon: "ch \<in> set (show_nat n) \<Longrightarrow> ch \<noteq> CHR '':''"
  by (auto dest: show_nat_digits simp: is_digit_def)

lemma show_nat_not_negative: "\<not> is_negative (show_nat n)"
proof -
  obtain ch rest where s: "show_nat n = ch # rest"
    using show_nat_not_empty [of n] by (cases "show_nat n") auto
  then have "ch \<in> set (show_nat n)" by simp
  then have "is_digit ch" by (rule show_nat_digits)
  then have "ch \<noteq> CHR ''-''" by (auto simp: is_digit_def)
  with s show ?thesis by (simp add: is_negative_def)
qed

lemma is_negative_minus: "is_negative (CHR ''-'' # s)"
  by (simp add: is_negative_def)

lemma read_int_show_int: "read_int (show_int i) = Some i"
  by (simp add: read_int_def show_int_def show_nat_not_negative read_nat_show_nat
        is_negative_minus)

lemma unframe_frame: "unframe (frame p @ rest) = Some (p, rest)"
proof -
  have t: "takeWhile (\<lambda>ch. ch \<noteq> CHR '':'') (show_nat (length p) @ CHR '':'' # p @ rest) =
      show_nat (length p)"
    by (simp add: takeWhile_append2 show_nat_no_colon)
  have d: "dropWhile (\<lambda>ch. ch \<noteq> CHR '':'') (show_nat (length p) @ CHR '':'' # p @ rest) =
      CHR '':'' # p @ rest"
    by (simp add: dropWhile_append2 show_nat_no_colon)
  show ?thesis
    by (simp add: unframe_def frame_def t d read_nat_show_nat)
qed

lemma decode_encode_claims: "decode_claims (encode_claims cl) = Some cl"
  by (simp add: decode_claims_def encode_claims_def unframe_frame read_int_show_int)

lemma spec_parse_signed:
  "spec_ParseWithClaims sg t (spec_SignedString sg token key) key =
     Some \<lparr>Method = SigningMethodHS256, TokenClaims = TokenClaims token,
           Valid = (t \<le> ExpiresAt (TokenClaims token))\<rparr>"
  by (simp add: spec_ParseWithClaims_def spec_SignedString_def Let_def unframe_frame
        decode_encode_claims)

lemma issue_token_spec:
  "issue_token (spec_jwt sg t) now hashed first =
     spec_SignedString sg (NewWithClaims SigningMethodHS256 (issue_claims now hashed first)) jwtKey"
  by (simp add: issue_token_def spec_jwt_def Let_def)

lemma resign_spec:
  "SignedString (spec_jwt sg t) \<lparr>Method = m, TokenClaims = cl, Valid = v\<rparr> key =
     spec_SignedString sg (NewWithClaims SigningMethodHS256 cl) key"
  by (simp add: spec_jwt_def spec_SignedString_def NewWithClaims_def)

lemma parse_issued:
  "parse_stored (spec_jwt sg t) (issue_token (spec_jwt sg t0) now hashed first) =
     Some \<lparr>Method = SigningMethodHS256, TokenClaims = issue_claims now hashed first,
           Valid = (t \<le> now + 3600 * 24)\<rparr>"
  unfolding issue_token_spec
  by (simp add: parse_stored_def spec_jwt_def NewWithClaims_def spec_parse_signed
        issue_claims_def Let_def)

section \<open>Facts about \<^verbatim>\<open>login\<close>\<close>





lemma sample_world_simps:
  "ldap_Dial (sample_world t) = (\<lambda>network addr. None)"
  "ldap_Bind (sample_world t) = (\<lambda>username password.
        if username = ''z1111111ad.unsw.edu.au'' \<and> password = ''opensesame'' then None
        else Some ''LDAP Result Code 49: Invalid Credentials'')"
  "ldap_Search (sample_world t) = (\<lambda>searchRequest. Inr [sample_entry])"
  "Sum256 (sample_world t) = rev"
  "time_Now (sample_world t) = t"
  "jwt (sample_world t) = spec_jwt sample_signature t"
  "users (sample_world t) =
     \<lparr>FindOne_error = None, InsertOne_error = None, UpdateOne_error = None\<rparr>"
  by (simp_all add: sample_world_def)

lemma parse_sample_token:
  "parse_stored (jwt (sample_world t)) (sample_token n) =
     Some \<lparr>Method = SigningMethodHS256, TokenClaims = issue_claims n ''1111111z'' [],
           Valid = (t \<le> n + 3600 * 24)\<rparr>"
  by (simp add: sample_world_simps sample_token_def parse_issued)


lemmas sample_login_defs =
  good_login_def bad_login_def sample_entry_def sample_user_def
  login_def login_search_def login_session_def
  FormValue_def FindOne_def InsertOne_def UpdateOne_def GetAttributeValue_def
  GetAttributeValues_def sample_world_simps Let_def

lemma sample_bad_login:
  "login (sample_world 0) [] bad_login =
     \<lparr>ending = Fatal ''LDAP Result Code 49: Invalid Credentials'', collection_after = [],
      calls = [Dial, Bind ''z1111111ad.unsw.edu.au'' ''guess'']\<rparr>"
  by (simp add: sample_login_defs)



lemma sample_login_valid:
  "login (sample_world 100) [sample_user] good_login =
     \<lparr>ending = token_response (sample_token 100), collection_after = [sample_user],
      calls = [Dial, Bind ''z1111111ad.unsw.edu.au'' ''opensesame'',
         Search (login_searchRequest ''z1111111ad.unsw.edu.au''),
         FindOneCall ''1111111z'']\<rparr>"
  using parse_sample_token [of 100 0]
  by (simp add: sample_login_defs sample_token_def issue_token_spec resign_spec)

lemma login_session_invalid:
  assumes "FindOne (users w) collection hashed = Some found"
    and "parse_stored (jwt w) (userToken found) = Some decodedToken"
    and "\<not> Valid decodedToken"
    and "UpdateOne_error (users w) = None"
  shows "login_session w collection made hashed userFound =
     \<lparr>ending = token_response
         (issue_token (jwt w) (time_Now w) hashed (GetAttributeValue userFound ''firstName'')),
      collection_after = set_userToken hashed (SignedString (jwt w) decodedToken jwtKey) collection,
      calls = made @ [FindOneCall hashed,
         UpdateOneCall hashed (SignedString (jwt w) decodedToken jwtKey)]\<rparr>"
  using assms by (simp add: login_session_def UpdateOne_def Let_def)

section \<open>The claims\<close>

subsection \<open>C1: a login that the directory refuses\<close>

text \<open>
  Claim C1 says that for every login request with invalid credentials, or a failure of the
  connection to the directory, no Session Record is created or updated, the caller
  receives an authentication error response, and the process never crashes.

  The first part holds and the rest does not: when \<^verbatim>\<open>ldap.Dial\<close>, \<^verbatim>\<open>l.Bind\<close> or
  \<^verbatim>\<open>l.Search\<close> returns an error, the handler calls \<^verbatim>\<open>log.Fatal\<close> with that error, which
  ends the process without a response; the collection is left as it was and no write
  to it is made. Every handler of the source treats its errors this way. On the sample
  deployment the login with a wrong password ends in \<open>Fatal\<close>.
\<close>

theorem login_directory_failure_is_fatal:
  assumes "ldap_Dial w ''tcp'' ''ad.unsw.edu.au'' = Some e \<or>
     (ldap_Dial w ''tcp'' ''ad.unsw.edu.au'' = None \<and>
      ldap_Bind w (FormValue c ''zid'' @ ''ad.unsw.edu.au'') (FormValue c ''password'') = Some e) \<or>
     (ldap_Dial w ''tcp'' ''ad.unsw.edu.au'' = None \<and>
      ldap_Bind w (FormValue c ''zid'' @ ''ad.unsw.edu.au'') (FormValue c ''password'') = None \<and>
      ldap_Search w (login_searchRequest (FormValue c ''zid'' @ ''ad.unsw.edu.au'')) = Inl e)"
  shows "ending (login w collection c) = Fatal e \<and>
     collection_after (login w collection c) = collection \<and>
     filter is_write (calls (login w collection c)) = []"
  using assms by (auto simp: login_def login_search_def Let_def)

theorem login_directory_failure_is_fatal_witness:
  "ldap_Dial (sample_world 0) ''tcp'' ''ad.unsw.edu.au'' = None \<and>
   ldap_Bind (sample_world 0) (FormValue bad_login ''zid'' @ ''ad.unsw.edu.au'')
     (FormValue bad_login ''password'') = Some ''LDAP Result Code 49: Invalid Credentials'' \<and>
   ending (login (sample_world 0) [sample_user] bad_login) =
     Fatal ''LDAP Result Code 49: Invalid Credentials'' \<and>
   collection_after (login (sample_world 0) [sample_user] bad_login) = [sample_user] \<and>
   filter is_write (calls (login (sample_world 0) [sample_user] bad_login)) = []"
proof -
  have dial: "ldap_Dial (sample_world 0) ''tcp'' ''ad.unsw.edu.au'' = None"
    by (simp add: sample_world_simps)
  have bind: "ldap_Bind (sample_world 0) (FormValue bad_login ''zid'' @ ''ad.unsw.edu.au'')
     (FormValue bad_login ''password'') = Some ''LDAP Result Code 49: Invalid Credentials''"
    by (simp add: sample_world_simps bad_login_def FormValue_def)
  from dial bind have "ldap_Dial (sample_world 0) ''tcp'' ''ad.unsw.edu.au'' =
       Some ''LDAP Result Code 49: Invalid Credentials'' \<or>
     (ldap_Dial (sample_world 0) ''tcp'' ''ad.unsw.edu.au'' = None \<and>
      ldap_Bind (sample_world 0) (FormValue bad_login ''zid'' @ ''ad.unsw.edu.au'')
        (FormValue bad_login ''password'') = Some ''LDAP Result Code 49: Invalid Credentials'') \<or>
     (ldap_Dial (sample_world 0) ''tcp'' ''ad.unsw.edu.au'' = None \<and>
      ldap_Bind (sample_world 0) (FormValue bad_login ''zid'' @ ''ad.unsw.edu.au'')
        (FormValue bad_login ''password'') = None \<and>
      ldap_Search (sample_world 0)
        (login_searchRequest (FormValue bad_login ''zid'' @ ''ad.unsw.edu.au'')) =
          Inl ''LDAP Result Code 49: Invalid Credentials'')"
    by blast
  from login_directory_failure_is_fatal [OF this, of "[sample_user]"] dial bind
  show ?thesis by blast
qed

theorem login_bad_password_counterexample:
  "ending (login (sample_world 0) [] bad_login) =
     Fatal ''LDAP Result Code 49: Invalid Credentials''"
  by (simp add: sample_bad_login)

subsection \<open>C2: a stored token that no longer verifies\<close>


subsection \<open>C3: the first login\<close>


subsection \<open>C4: a stored token that still verifies\<close>



subsection \<open>C5: the body of the response\<close>



subsection \<open>C6: issuing and verifying a token\<close>

text \<open>
  Claim C6, the round trip of the token issuer: a token issued for a subject hash and a
  display name verifies as valid immediately after it is issued, and as not valid once
  its ttl of 24 hours has elapsed (expiry = issue time + ttl).

  The issuing (lines 179 to 190) and the verification (lines 209 to 215) are those of
  \<^verbatim>\<open>login\<close>, over the token library of the specification with any signature function
  \<open>sg\<close>. The expiry written into the claims is the issue time plus 86400 seconds. A
  verifier whose clock reads \<open>t\<close> gets back the claims that were issued, with \<^verbatim>\<open>Valid\<close> set
  exactly when \<open>t\<close> is not after the expiry: valid at the issue time \<open>t = now\<close> and up to
  the second of expiry, not valid at every later second.
\<close>

theorem token_round_trip:
  "ExpiresAt (issue_claims now hashed first) = now + 24 * 3600 \<and>
   parse_stored (spec_jwt sg t) (issue_token (spec_jwt sg t0) now hashed first) =
     Some \<lparr>Method = SigningMethodHS256, TokenClaims = issue_claims now hashed first,
           Valid = (t \<le> now + 24 * 3600)\<rparr>"
  using parse_issued [of sg t t0 now hashed first] by (simp add: issue_claims_def)

subsection \<open>C7: the limit of \<^verbatim>\<open>GET /posts/\<close>\<close>

text \<open>
  Claim C7: for every \<^verbatim>\<open>GET /posts/\<close> request the limit applied is the requested count
  when the count differs from 10, and 10 otherwise; in particular a request with
  \<open>id=5\<close> returns at most 5 records.
\<close>

theorem getAllPosts_limit:
  "Limit (posts_findOptions c) = Some (if posts_count c \<noteq> 10 then posts_count c else 10) \<and>
   (QueryParam c ''id'' = ''5'' \<longrightarrow>
      Limit (posts_findOptions c) = Some 5 \<and>
      (\<forall>code body. getAllPosts drv collection c = Response code body \<longrightarrow>
         (\<exists>posts. body = [(''posts'', JPosts posts)] \<and> length posts \<le> 5)))"
proof (intro conjI impI allI)
  show "Limit (posts_findOptions c) = Some (if posts_count c \<noteq> 10 then posts_count c else 10)"
    by (simp add: posts_findOptions_limit)
next
  assume id: "QueryParam c ''id'' = ''5''"
  have five: "posts_count c = 5"
    by (simp add: posts_count_def id Atoi_five)
  then show lim: "Limit (posts_findOptions c) = Some 5"
    by (simp add: posts_findOptions_limit)
  fix code body
  assume "getAllPosts drv collection c = Response code body"
  from getAllPosts_response [OF this] obtain posts where
    b: "body = [(''posts'', JPosts posts)]" and
    l: "map Inr posts = map (decode_post drv)
          (limited (posts_findOptions c) (selected drv (posts_filter_of c) collection))"
    by blast
  from l have "length posts =
      length (limited (posts_findOptions c) (selected drv (posts_filter_of c) collection))"
    by (metis length_map)
  with limited_length [OF lim] have "length posts \<le> 5" by simp
  with b show "\<exists>posts. body = [(''posts'', JPosts posts)] \<and> length posts \<le> 5" by blast
qed

theorem getAllPosts_limit_witness:
  "QueryParam five_posts_request ''id'' = ''5'' \<and>
   Limit (posts_findOptions five_posts_request) = Some 5 \<and>
   getAllPosts sample_posts_driver [1, 2, 3, 4, 5, 6, 7] five_posts_request =
     Response StatusOK [(''posts'', JPosts (map sample_post [1, 2, 3, 4, 5]))] \<and>
   (\<exists>posts. [(''posts'', JPosts (map sample_post [1, 2, 3, 4, 5]))] = [(''posts'', JPosts posts)] \<and>
      length posts \<le> 5)"
proof -
  have id: "QueryParam five_posts_request ''id'' = ''5''"
    by (simp add: QueryParam_def five_posts_request_def)
  note run = sample_posts_five
  from getAllPosts_limit [of five_posts_request sample_posts_driver "[1, 2, 3, 4, 5, 6, 7]"]
    id run
  show ?thesis by blast
qed

subsection \<open>C8: the writes and the directory requests of one login\<close>




subsection \<open>C9: \<^verbatim>\<open>GET /posts/\<close> without a usable count\<close>

text \<open>
  Claim C9 says that for every \<^verbatim>\<open>GET /posts/\<close> request whose \<open>id\<close> parameter is absent or
  non-numeric, the count parses to 0 and the handler sets the limit of the query to 0,
  which the record store reads as no limit, so the response is not capped at 10 and
  can contain every stored post.

  This holds when the parameter is absent (\<^verbatim>\<open>QueryParam\<close> returns the empty string) and
  when \<^verbatim>\<open>Atoi\<close> rejects it as invalid syntax: then the count and the limit are 0; every
  response carries the decoding of each selected document, in order; a response is
  sent when the query and the decoding do not fail; and with no category every stored
  document is selected. It does not hold for every value that is no number: when the
  value starts with digits that overflow 64 bits before the first byte that is no
  digit is read, \<^verbatim>\<open>Atoi\<close> reports it as out of range and returns the largest \<^verbatim>\<open>int64\<close>,
  which becomes the count and the limit.
\<close>

theorem getAllPosts_without_count_is_unlimited:
  assumes "QueryParam c ''id'' = [] \<or> snd (Atoi (QueryParam c ''id'')) = Some ErrSyntax"
  shows "posts_count c = 0 \<and>
     Limit (posts_findOptions c) = Some 0 \<and>
     (\<forall>code body. getAllPosts drv collection c = Response code body \<longrightarrow>
        (\<exists>posts. body = [(''posts'', JPosts posts)] \<and>
           map Inr posts = map (decode_post drv) (selected drv (posts_filter_of c) collection))) \<and>
     (find_error drv = None \<and> (\<forall>d \<in> set collection. \<exists>p. decode_post drv d = Inr p) \<longrightarrow>
        (\<exists>posts. getAllPosts drv collection c = Response StatusOK [(''posts'', JPosts posts)] \<and>
           length posts = length (selected drv (posts_filter_of c) collection))) \<and>
     (QueryParam c ''category'' = [] \<longrightarrow>
        selected drv (posts_filter_of c) collection = collection)"
proof -
  from assms have "snd (Atoi (QueryParam c ''id'')) = Some ErrSyntax"
    by (auto simp: Atoi_empty)
  then have count: "posts_count c = 0"
    by (simp add: posts_count_def Atoi_syntax_zero)
  then have lim: "Limit (posts_findOptions c) = Some 0"
    by (simp add: posts_findOptions_limit)
  note all = limited_zero [OF lim]
  have resp: "\<exists>posts. body = [(''posts'', JPosts posts)] \<and>
      map Inr posts = map (decode_post drv) (selected drv (posts_filter_of c) collection)"
    if "getAllPosts drv collection c = Response code body" for code body
    using getAllPosts_response [OF that] by (simp add: all)
  have sent: "\<exists>posts. getAllPosts drv collection c = Response StatusOK [(''posts'', JPosts posts)] \<and>
      length posts = length (selected drv (posts_filter_of c) collection)"
    if ok: "find_error drv = None" "\<forall>d \<in> set collection. \<exists>p. decode_post drv d = Inr p"
  proof -
    from getAllPosts_responds [OF ok] obtain posts where
      r: "getAllPosts drv collection c = Response StatusOK [(''posts'', JPosts posts)]"
      by blast
    from resp [OF r] have
      "map Inr posts = map (decode_post drv) (selected drv (posts_filter_of c) collection)"
      by simp
    then have "length posts = length (selected drv (posts_filter_of c) collection)"
      by (metis length_map)
    with r show ?thesis by blast
  qed
  have cat: "selected drv (posts_filter_of c) collection = collection"
    if "QueryParam c ''category'' = []"
    using that by (simp add: posts_filter_of_def selected_def)
  from count lim resp sent cat show ?thesis by blast
qed

theorem getAllPosts_without_count_is_unlimited_witness:
  "snd (Atoi (QueryParam abc_posts_request ''id'')) = Some ErrSyntax \<and>
   QueryParam abc_posts_request ''category'' = [] \<and>
   find_error sample_posts_driver = None \<and>
   posts_count abc_posts_request = 0 \<and>
   Limit (posts_findOptions abc_posts_request) = Some 0 \<and>
   getAllPosts sample_posts_driver [1, 2, 3, 4, 5, 6, 7, 8, 9, 10, 11, 12] abc_posts_request =
     Response StatusOK
       [(''posts'', JPosts (map sample_post [1, 2, 3, 4, 5, 6, 7, 8, 9, 10, 11, 12]))] \<and>
   selected sample_posts_driver (posts_filter_of abc_posts_request)
     [1, 2, 3, 4, 5, 6, 7, 8, 9, 10, 11, 12] = [1, 2, 3, 4, 5, 6, 7, 8, 9, 10, 11, 12]"
proof -
  have id: "snd (Atoi (QueryParam abc_posts_request ''id'')) = Some ErrSyntax"
    by (simp add: QueryParam_def abc_posts_request_def Atoi_abc)
  have cat: "QueryParam abc_posts_request ''category'' = []"
    by (simp add: QueryParam_def abc_posts_request_def)
  have ok: "find_error sample_posts_driver = None"
    by (simp add: sample_posts_driver_def)
  from id have hyp: "QueryParam abc_posts_request ''id'' = [] \<or>
      snd (Atoi (QueryParam abc_posts_request ''id'')) = Some ErrSyntax"
    by blast
  from getAllPosts_without_count_is_unlimited [OF hyp, of sample_posts_driver
      "[1, 2, 3, 4, 5, 6, 7, 8, 9, 10, 11, 12]"] id cat ok sample_posts_abc
  show ?thesis by blast
qed

theorem getAllPosts_overlong_id_counterexample:
  "\<not> list_all is_digit (QueryParam overlong_posts_request ''id'') \<and>
   Atoi (QueryParam overlong_posts_request ''id'') = (9223372036854775807, Some ErrRange) \<and>
   posts_count overlong_posts_request = 9223372036854775807 \<and>
   Limit (posts_findOptions overlong_posts_request) = Some 9223372036854775807"
proof -
  have id: "QueryParam overlong_posts_request ''id'' = ''99999999999999999999x''"
    by (simp add: QueryParam_def overlong_posts_request_def)
  have letter: "\<not> list_all is_digit ''99999999999999999999x''"
    by (simp add: is_digit_def)
  have parsed: "Atoi ''99999999999999999999x'' = (9223372036854775807, Some ErrRange)"
    by (simp add: Atoi_def ParseInt_def ParseUint_def has_sign_def is_negative_def
          is_digit_def digit_val_def maxUint64_def)
  from id letter parsed show ?thesis
    by (simp add: posts_count_def posts_findOptions_limit)
qed

subsection \<open>C10: \<^verbatim>\<open>DELETE /sponsor/\<close> with an id that is no UUID\<close>

text \<open>
  Claim C10: for some input the handler of \<^verbatim>\<open>DELETE /sponsor/\<close> fails before any storage
  call: when the \<open>id\<close> form field is not a well-formed UUID,
  \<^verbatim>\<open>uuid.Must(uuid.Parse(id))\<close> panics instead of returning an error response, so the
  handler is total only under the precondition that \<open>id\<close> parses as a UUID.

  When \<^verbatim>\<open>uuid.Parse\<close> returns an error for the field, the handler ends in a panic with
  that error, the collection is untouched and no call to it was made; and whenever the
  handler ends otherwise (in a response, or in \<^verbatim>\<open>log.Fatal\<close> after \<^verbatim>\<open>DeleteOne\<close>), the
  field parsed as a UUID. The sample request carries the id \<open>not-a-uuid\<close>.
\<close>

theorem deleteSponsor_panics_on_malformed_id:
  "(\<forall>e. uuid_Parse drv (FormValue c ''id'') = Inl e \<longrightarrow>
      deleteSponsor drv collection c =
        \<lparr>ending = Panic e, collection_after = collection, calls = []\<rparr>) \<and>
   ((\<forall>msg. ending (deleteSponsor drv collection c) \<noteq> Panic msg) \<longrightarrow>
      (\<exists>parsedID. uuid_Parse drv (FormValue c ''id'') = Inr parsedID))"
  by (auto simp: deleteSponsor_def Let_def split: sum.splits)

theorem deleteSponsor_panics_on_malformed_id_witness:
  "uuid_Parse sample_sponsors_driver (FormValue malformed_delete ''id'') =
     Inl ''invalid UUID length'' \<and>
   deleteSponsor sample_sponsors_driver [sample_sponsor] malformed_delete =
     \<lparr>ending = Panic ''invalid UUID length'', collection_after = [sample_sponsor], calls = []\<rparr>"
proof -
  have bad: "uuid_Parse sample_sponsors_driver (FormValue malformed_delete ''id'') =
     Inl ''invalid UUID length''"
    by (simp add: sample_sponsors_driver_def malformed_delete_def FormValue_def)
  from deleteSponsor_panics_on_malformed_id
    [of sample_sponsors_driver malformed_delete "[sample_sponsor]"] bad
  show ?thesis by blast
qed

end
